theory Spec2Isabelle
  imports Main
begin

section \<open>Data model\<close>

text \<open>
  The backend exists in two variants, \<^verbatim>\<open>app_postgresql.py\<close> and \<^verbatim>\<open>app_postresql.py\<close>.
  The decorator \<^verbatim>\<open>token_required\<close> and the routes \<^verbatim>\<open>register\<close>, \<^verbatim>\<open>login\<close>, \<^verbatim>\<open>logout\<close>,
  \<^verbatim>\<open>update_incident\<close> and \<^verbatim>\<open>delete_incident\<close> are the same text in both; \<^verbatim>\<open>setup_database\<close>
  and \<^verbatim>\<open>create_incident\<close> differ and are modelled once per variant.

  A point in time is an instant on the UTC time line, counted in microseconds (the resolution
  of Python's \<^verbatim>\<open>datetime\<close> and of the \<^verbatim>\<open>TIMESTAMP WITH TIME ZONE\<close> columns).
\<close>

type_synonym timestamp = int

text \<open>Table \<^verbatim>\<open>users\<close>.\<close>

record user_row =
  user_id :: string
  username :: string
  password_hash :: string

text \<open>Table \<^verbatim>\<open>api_tokens\<close>.\<close>

record token_row =
  token :: string
  token_user_id :: string
  token_created_at :: timestamp

text \<open>
  Table \<^verbatim>\<open>incidents\<close>. The columns \<^verbatim>\<open>status\<close> and \<^verbatim>\<open>updated_at\<close> exist only in the table of
  \<^verbatim>\<open>app_postgresql.py\<close>; a row of the other table holds \<open>None\<close> there. The field
  \<open>incident_id\<close> is the value of the primary key, whatever the name of its column.
\<close>

record incident_row =
  incident_id :: string
  incident_user_id :: string
  title :: string
  description :: string
  lat :: string
  long :: string
  image_url :: "string option"
  status :: "string option"
  created_at :: timestamp
  updated_at :: "timestamp option"

text \<open>
  The name of the primary key column of \<^verbatim>\<open>incidents\<close>: \<^verbatim>\<open>id UUID PRIMARY KEY DEFAULT
  uuid_generate_v4()\<close> in the table that \<^verbatim>\<open>setup_database\<close> of \<^verbatim>\<open>app_postgresql.py\<close> creates,
  \<^verbatim>\<open>incident_id VARCHAR(255) PRIMARY KEY\<close> in the table of \<^verbatim>\<open>app_postresql.py\<close>.
\<close>

datatype key_column = Key_id | Key_incident_id

text \<open>
  The state a request runs against: whether \<^verbatim>\<open>psycopg2.connect\<close> succeeds, whether the
  file system takes a new file in the upload folder, the three tables, and the files of the
  upload folder (path to content).
\<close>

record server =
  db_up :: bool
  disk_up :: bool
  users :: "user_row list"
  api_tokens :: "token_row list"
  incidents :: "incident_row list"
  incidents_key :: key_column
  uploads :: "string \<rightharpoonup> string"

text \<open>
  What \<^verbatim>\<open>cur.execute\<close> can raise against these tables: \<^verbatim>\<open>ValueError\<close>, which is psycopg2's
  own and comes before the statement is sent, for a parameter that holds the character NUL;
  and from the database a column the table does not have, a value too long for its
  \<^verbatim>\<open>VARCHAR(255)\<close> column, a missing value for a column that is \<^verbatim>\<open>NOT NULL\<close> and has no
  default, a second row with the same \<^verbatim>\<open>PRIMARY KEY\<close> or \<^verbatim>\<open>UNIQUE\<close> value, a \<^verbatim>\<open>user_id\<close>
  that \<^verbatim>\<open>users\<close> does not hold.
\<close>

datatype db_error =
  ValueError
  | UndefinedColumn
  | StringDataRightTruncation
  | NotNullViolation
  | UniqueViolation
  | ForeignKeyViolation

text \<open>
  The exceptions of the model: an index out of range, a file that cannot be written, and
  what \<^verbatim>\<open>cur.execute\<close> raises.
\<close>

datatype exn = IndexError | OSError | DatabaseError db_error

text \<open>The parts of a request the routes read.\<close>

record credentials =
  cred_username :: "string option"
  cred_password :: "string option"

record form =
  form_title :: "string option"
  form_description :: "string option"
  form_lat :: "string option"
  form_long :: "string option"
  form_created_at :: "string option"

record file_storage =
  filename :: string
  content :: string

text \<open>
  What \<^verbatim>\<open>jsonify\<close> is applied to, and the pair of body and status code a route returns.
  Every body has a \<^verbatim>\<open>message\<close>; after it come \<^verbatim>\<open>user_id\<close> (\<^verbatim>\<open>register\<close>); \<^verbatim>\<open>token\<close>,
  \<^verbatim>\<open>user_id\<close> and \<^verbatim>\<open>username\<close> (\<^verbatim>\<open>login\<close>); \<^verbatim>\<open>incident\<close>; \<^verbatim>\<open>required\<close> and \<^verbatim>\<open>received\<close>;
  \<^verbatim>\<open>error\<close>.
\<close>

datatype body =
  Message string
  | Message_user_id string string
  | Message_token string string string string
  | Message_incident string incident_row
  | Message_required string "string list" form
  | Message_error string exn

type_synonym response = "body \<times> nat"

section \<open>Strings\<close>

text \<open>\<^verbatim>\<open>not x\<close> for a value that is \<^verbatim>\<open>None\<close> or a string.\<close>

fun falsy :: "string option \<Rightarrow> bool" where
  "falsy None = True"
| "falsy (Some s) = (s = [])"

text \<open>\<^verbatim>\<open>s.split(" ")\<close>: cuts at every single space and always yields at least one piece.\<close>

fun split_space :: "string \<Rightarrow> string list" where
  "split_space [] = [[]]"
| "split_space (c # cs) =
     (if c = CHR '' '' then [] # split_space cs
      else (case split_space cs of [] \<Rightarrow> [[c]] | w # ws \<Rightarrow> (c # w) # ws))"

text \<open>\<^verbatim>\<open>xs[i]\<close> for \<open>i \<ge> 0\<close>: raises \<^verbatim>\<open>IndexError\<close> out of range.\<close>

definition index :: "'a list \<Rightarrow> nat \<Rightarrow> exn + 'a" where
  "index xs i = (if i < length xs then Inr (xs ! i) else Inl IndexError)"

text \<open>\<^verbatim>\<open>s.rsplit('.', 1)\<close>: cuts once, at the last dot.\<close>

definition rsplit_dot :: "string \<Rightarrow> string list" where
  "rsplit_dot s =
     (if CHR ''.'' \<in> set s
      then [rev (tl (dropWhile (\<lambda>c. c \<noteq> CHR ''.'') (rev s))),
            rev (takeWhile (\<lambda>c. c \<noteq> CHR ''.'') (rev s))]
      else [s])"

text \<open>\<^verbatim>\<open>s.lower()\<close> on the letters A to Z; every other character is kept.\<close>

definition lower_char :: "char \<Rightarrow> char" where
  "lower_char c =
     (case map_of (zip ''ABCDEFGHIJKLMNOPQRSTUVWXYZ'' ''abcdefghijklmnopqrstuvwxyz'') c of
        None \<Rightarrow> c
      | Some d \<Rightarrow> d)"

definition lower :: "string \<Rightarrow> string" where
  "lower s = map lower_char s"

definition ALLOWED_EXTENSIONS :: "string list" where
  "ALLOWED_EXTENSIONS = [''png'', ''jpg'', ''jpeg'', ''gif'']"

definition allowed_file :: "string \<Rightarrow> bool" where
  "allowed_file name =
     (CHR ''.'' \<in> set name \<and>
      (case index (rsplit_dot name) 1 of
         Inl e \<Rightarrow> False
       | Inr ext \<Rightarrow> lower ext \<in> set ALLOWED_EXTENSIONS))"

section \<open>Time\<close>

text \<open>\<^verbatim>\<open>dt.replace(microsecond=0)\<close>: the microsecond field, always in 0..999999, is cleared.\<close>

definition replace_microsecond_0 :: "timestamp \<Rightarrow> timestamp" where
  "replace_microsecond_0 t = t - t mod 1000000"

text \<open>\<^verbatim>\<open>timedelta(hours=h)\<close>, in microseconds.\<close>

definition timedelta_hours :: "int \<Rightarrow> int" where
  "timedelta_hours h = h * 3600 * 1000000"

section \<open>Database statements\<close>

text \<open>
  \<^verbatim>\<open>get_db_connection\<close> returns \<^verbatim>\<open>None\<close> when \<^verbatim>\<open>psycopg2.connect\<close> raises
  \<^verbatim>\<open>OperationalError\<close>. A connection is the database it reads; what a route writes through
  it becomes the state only at \<^verbatim>\<open>commit\<close>.
\<close>

definition get_db_connection :: "server \<Rightarrow> server option" where
  "get_db_connection s = (if db_up s then Some s else None)"

text \<open>psycopg2 refuses a parameter that holds the character NUL.\<close>

definition holds_nul :: "string \<Rightarrow> bool" where
  "holds_nul v = (CHR 0x00 \<in> set v)"

fun holds_nul_opt :: "string option \<Rightarrow> bool" where
  "holds_nul_opt None = False"
| "holds_nul_opt (Some v) = holds_nul v"

text \<open>
  A key or a token fits its \<^verbatim>\<open>VARCHAR(255)\<close> column. These values are \<^verbatim>\<open>uuid4\<close> texts of 36
  characters, or come from a row; none is ever longer than the column.
\<close>

definition varchar255 :: "string \<Rightarrow> bool" where
  "varchar255 v = (length v \<le> 255)"

text \<open>
  A text of the request that is assigned to a \<^verbatim>\<open>VARCHAR(255)\<close> column: PostgreSQL accepts
  it when everything after the first 255 characters is spaces, and stores the first 255
  characters (the whole value when it is no longer than that); any other value is refused.
\<close>

definition varchar255_accepts :: "string \<Rightarrow> bool" where
  "varchar255_accepts v = (filter (\<lambda>c. c \<noteq> CHR '' '') (drop 255 v) = [])"

definition varchar255_stored :: "string \<Rightarrow> string" where
  "varchar255_stored v = take 255 v"

fun varchar255_accepts_opt :: "string option \<Rightarrow> bool" where
  "varchar255_accepts_opt None = True"
| "varchar255_accepts_opt (Some v) = varchar255_accepts v"

text \<open>\<^verbatim>\<open>SELECT user_id, created_at FROM api_tokens WHERE token = %s\<close>, then \<^verbatim>\<open>fetchone\<close>.\<close>

definition select_token :: "server \<Rightarrow> string \<Rightarrow> (string \<times> timestamp) option" where
  "select_token conn t =
     map_option (\<lambda>r. (token_user_id r, token_created_at r))
       (find (\<lambda>r. token r = t) (api_tokens conn))"

text \<open>
  \<^verbatim>\<open>SELECT user_id, password_hash FROM users WHERE username = %s\<close>, then \<^verbatim>\<open>fetchone\<close>.
  A name that holds NUL makes \<^verbatim>\<open>cur.execute\<close> raise. A text that PostgreSQL stores never
  holds NUL, so such a name is the name of no row: the statement raises where no row has
  the name and the name holds NUL.
\<close>

definition select_user :: "server \<Rightarrow> string \<Rightarrow> db_error + (string \<times> string) option" where
  "select_user conn name =
     (case find (\<lambda>r. username r = name) (users conn) of
        Some r \<Rightarrow> Inr (Some (user_id r, password_hash r))
      | None \<Rightarrow> if holds_nul name then Inl ValueError else Inr None)"

text \<open>
  \<^verbatim>\<open>INSERT INTO users (user_id, username, password_hash) VALUES (%s, %s, %s)\<close> into
  \<^verbatim>\<open>users (user_id VARCHAR(255) PRIMARY KEY, username VARCHAR(255) UNIQUE NOT NULL,
  password_hash VARCHAR(255) NOT NULL)\<close>.
\<close>

definition insert_user :: "server \<Rightarrow> user_row \<Rightarrow> db_error + server" where
  "insert_user conn r =
     (if holds_nul (user_id r) \<or> holds_nul (username r) \<or> holds_nul (password_hash r)
      then Inl ValueError
      else if \<not> (varchar255 (user_id r) \<and> varchar255_accepts (username r)
                  \<and> varchar255_accepts (password_hash r))
      then Inl StringDataRightTruncation
      else if user_id r \<in> set (map user_id (users conn))
              \<or> varchar255_stored (username r) \<in> set (map username (users conn))
      then Inl UniqueViolation
      else Inr (conn\<lparr>users := users conn @
                  [r\<lparr>username := varchar255_stored (username r),
                     password_hash := varchar255_stored (password_hash r)\<rparr>]\<rparr>))"

text \<open>\<^verbatim>\<open>DELETE FROM api_tokens WHERE user_id = %s\<close>.\<close>

definition delete_tokens_of :: "server \<Rightarrow> string \<Rightarrow> server" where
  "delete_tokens_of conn uid =
     conn\<lparr>api_tokens := filter (\<lambda>r. token_user_id r \<noteq> uid) (api_tokens conn)\<rparr>"

text \<open>
  \<^verbatim>\<open>INSERT INTO api_tokens (token, user_id) VALUES (%s, %s)\<close> into
  \<^verbatim>\<open>api_tokens (token VARCHAR(255) PRIMARY KEY, user_id VARCHAR(255) NOT NULL UNIQUE,
  created_at TIMESTAMP WITH TIME ZONE DEFAULT CURRENT_TIMESTAMP,
  FOREIGN KEY (user_id) REFERENCES users(user_id) ON DELETE CASCADE)\<close>;
  \<open>now\<close> is \<^verbatim>\<open>CURRENT_TIMESTAMP\<close>.
\<close>

definition insert_token :: "server \<Rightarrow> string \<Rightarrow> string \<Rightarrow> timestamp \<Rightarrow> db_error + server" where
  "insert_token conn t uid now =
     (if \<not> (varchar255 t \<and> varchar255 uid) then Inl StringDataRightTruncation
      else if t \<in> set (map token (api_tokens conn))
              \<or> uid \<in> set (map token_user_id (api_tokens conn))
      then Inl UniqueViolation
      else if uid \<notin> set (map user_id (users conn)) then Inl ForeignKeyViolation
      else Inr (conn\<lparr>api_tokens := api_tokens conn @
                  [\<lparr>token = t, token_user_id = uid, token_created_at = now\<rparr>]\<rparr>))"

text \<open>\<^verbatim>\<open>DELETE FROM api_tokens WHERE user_id = %s AND token = %s\<close>.\<close>

definition delete_token :: "server \<Rightarrow> string \<Rightarrow> string \<Rightarrow> server" where
  "delete_token conn uid t =
     conn\<lparr>api_tokens :=
       filter (\<lambda>r. \<not> (token_user_id r = uid \<and> token r = t)) (api_tokens conn)\<rparr>"

text \<open>
  \<^verbatim>\<open>SELECT ... FROM incidents WHERE incident_id = %s\<close>, then \<^verbatim>\<open>fetchone\<close>: the statement
  names the column \<^verbatim>\<open>incident_id\<close> and is refused by a table that has no such column. An
  id that holds NUL makes \<^verbatim>\<open>cur.execute\<close> raise; as for \<open>select_user\<close>, it is the id of
  no row.
\<close>

definition select_incident :: "server \<Rightarrow> string \<Rightarrow> db_error + incident_row option" where
  "select_incident conn iid =
     (if incidents_key conn \<noteq> Key_incident_id then Inl UndefinedColumn
      else
        (case find (\<lambda>r. incident_id r = iid) (incidents conn) of
           Some r \<Rightarrow> Inr (Some r)
         | None \<Rightarrow> if holds_nul iid then Inl ValueError else Inr None))"

text \<open>\<^verbatim>\<open>DELETE FROM incidents WHERE incident_id = %s\<close>.\<close>

definition delete_incident_row :: "server \<Rightarrow> string \<Rightarrow> db_error + server" where
  "delete_incident_row conn iid =
     (if incidents_key conn \<noteq> Key_incident_id then Inl UndefinedColumn
      else Inr (conn\<lparr>incidents := filter (\<lambda>r. incident_id r \<noteq> iid) (incidents conn)\<rparr>))"

text \<open>
  The \<^verbatim>\<open>SET\<close> list that \<^verbatim>\<open>update_incident\<close> builds: one entry per value that is not
  \<^verbatim>\<open>None\<close>.
\<close>

record update_fields =
  set_title :: "string option"
  set_description :: "string option"
  set_lat :: "string option"
  set_long :: "string option"
  set_image_url :: "string option"

definition no_update_fields :: "update_fields \<Rightarrow> bool" where
  "no_update_fields u =
     (set_title u = None \<and> set_description u = None \<and> set_lat u = None
      \<and> set_long u = None \<and> set_image_url u = None)"

definition apply_update :: "update_fields \<Rightarrow> incident_row \<Rightarrow> incident_row" where
  "apply_update u r =
     r\<lparr>title := (case set_title u of None \<Rightarrow> title r | Some v \<Rightarrow> varchar255_stored v),
       description := (case set_description u of None \<Rightarrow> description r | Some v \<Rightarrow> v),
       lat := (case set_lat u of None \<Rightarrow> lat r | Some v \<Rightarrow> varchar255_stored v),
       long := (case set_long u of None \<Rightarrow> long r | Some v \<Rightarrow> varchar255_stored v),
       image_url :=
         (case set_image_url u of None \<Rightarrow> image_url r
          | Some v \<Rightarrow> Some (varchar255_stored v))\<rparr>"

text \<open>
  \<^verbatim>\<open>UPDATE incidents SET ... WHERE incident_id=%s\<close>; \<^verbatim>\<open>title\<close>, \<^verbatim>\<open>lat\<close>, \<^verbatim>\<open>long\<close> and
  \<^verbatim>\<open>image_url\<close> are \<^verbatim>\<open>VARCHAR(255)\<close>, \<^verbatim>\<open>description\<close> is \<^verbatim>\<open>TEXT\<close>.
\<close>

definition update_incident_row :: "server \<Rightarrow> update_fields \<Rightarrow> string \<Rightarrow> db_error + server" where
  "update_incident_row conn u iid =
     (if holds_nul_opt (set_title u) \<or> holds_nul_opt (set_description u)
         \<or> holds_nul_opt (set_lat u) \<or> holds_nul_opt (set_long u)
         \<or> holds_nul_opt (set_image_url u)
      then Inl ValueError
      else if incidents_key conn \<noteq> Key_incident_id then Inl UndefinedColumn
      else if \<not> (varchar255_accepts_opt (set_title u) \<and> varchar255_accepts_opt (set_lat u)
                  \<and> varchar255_accepts_opt (set_long u)
                  \<and> varchar255_accepts_opt (set_image_url u))
      then Inl StringDataRightTruncation
      else Inr (conn\<lparr>incidents :=
                  map (\<lambda>r. if incident_id r = iid then apply_update u r else r)
                    (incidents conn)\<rparr>))"

text \<open>
  \<^verbatim>\<open>INSERT INTO incidents (user_id, title, description, lat, long, image_url) VALUES (...)
  RETURNING *\<close> of \<^verbatim>\<open>app_postgresql.py\<close>: the key is left to the column default, which only
  the \<^verbatim>\<open>id\<close> column has (\<open>new_id\<close> is what \<^verbatim>\<open>uuid_generate_v4()\<close> yields); \<^verbatim>\<open>status\<close>,
  \<^verbatim>\<open>created_at\<close> and \<^verbatim>\<open>updated_at\<close> take their defaults.
\<close>

definition insert_incident_returning ::
  "server \<Rightarrow> string \<Rightarrow> timestamp \<Rightarrow> string \<Rightarrow> string \<Rightarrow> string \<Rightarrow> string \<Rightarrow> string
     \<Rightarrow> string option \<Rightarrow> db_error + incident_row \<times> server" where
  "insert_incident_returning conn new_id now uid t d la lo img =
     (if holds_nul t \<or> holds_nul d \<or> holds_nul la \<or> holds_nul lo \<or> holds_nul_opt img
      then Inl ValueError
      else if \<not> (varchar255 uid \<and> varchar255_accepts t \<and> varchar255_accepts la
                  \<and> varchar255_accepts lo \<and> varchar255_accepts_opt img)
      then Inl StringDataRightTruncation
      else if incidents_key conn \<noteq> Key_id then Inl NotNullViolation
      else if new_id \<in> set (map incident_id (incidents conn)) then Inl UniqueViolation
      else if uid \<notin> set (map user_id (users conn)) then Inl ForeignKeyViolation
      else
        (let r = \<lparr>incident_id = new_id, incident_user_id = uid,
                  title = varchar255_stored t, description = d,
                  lat = varchar255_stored la, long = varchar255_stored lo,
                  image_url = map_option varchar255_stored img, status = Some ''open'',
                  created_at = now, updated_at = Some now\<rparr>
         in Inr (r, conn\<lparr>incidents := incidents conn @ [r]\<rparr>)))"

text \<open>
  \<^verbatim>\<open>INSERT INTO incidents (incident_id, user_id, title, description, lat, long, image_url[,
  created_at]) VALUES (...)\<close> of \<^verbatim>\<open>app_postresql.py\<close>: the statement names the column
  \<^verbatim>\<open>incident_id\<close>; \<open>created\<close> is the given \<^verbatim>\<open>created_at\<close> or \<^verbatim>\<open>CURRENT_TIMESTAMP\<close>.
\<close>

definition insert_incident ::
  "server \<Rightarrow> string \<Rightarrow> timestamp \<Rightarrow> string \<Rightarrow> string \<Rightarrow> string \<Rightarrow> string \<Rightarrow> string
     \<Rightarrow> string option \<Rightarrow> db_error + server" where
  "insert_incident conn iid created uid t d la lo img =
     (if holds_nul t \<or> holds_nul d \<or> holds_nul la \<or> holds_nul lo \<or> holds_nul_opt img
      then Inl ValueError
      else if incidents_key conn \<noteq> Key_incident_id then Inl UndefinedColumn
      else if \<not> (varchar255 iid \<and> varchar255 uid \<and> varchar255_accepts t
                  \<and> varchar255_accepts la \<and> varchar255_accepts lo
                  \<and> varchar255_accepts_opt img)
      then Inl StringDataRightTruncation
      else if iid \<in> set (map incident_id (incidents conn)) then Inl UniqueViolation
      else if uid \<notin> set (map user_id (users conn)) then Inl ForeignKeyViolation
      else Inr (conn\<lparr>incidents := incidents conn @
                  [\<lparr>incident_id = iid, incident_user_id = uid,
                    title = varchar255_stored t, description = d,
                    lat = varchar255_stored la, long = varchar255_stored lo,
                    image_url = map_option varchar255_stored img, status = None,
                    created_at = created, updated_at = None\<rparr>]\<rparr>))"

section \<open>The upload folder\<close>

text \<open>
  The block that both \<^verbatim>\<open>create_incident\<close> and \<^verbatim>\<open>update_incident\<close> run on an accepted
  file: \<^verbatim>\<open>secure_filename\<close> (of werkzeug, a parameter here), a name made unique by a fresh
  \<^verbatim>\<open>uuid4\<close>, \<^verbatim>\<open>file.save\<close> under \<^verbatim>\<open>UPLOAD_FOLDER\<close>, and the URL that is stored with the
  incident.

  \<^verbatim>\<open>file.save\<close> opens the new file for writing and raises \<^verbatim>\<open>OSError\<close> when the file system
  does not take it: always when the name of the file is longer than \<open>NAME_MAX\<close>, 255 bytes
  (a name of 219 characters behind the 36 characters of the \<^verbatim>\<open>uuid4\<close> and the underscore is
  one byte too long), and whenever the folder cannot be written (\<open>disk_up\<close>). Nothing is
  stored then.
\<close>

definition UPLOAD_FOLDER :: string where
  "UPLOAD_FOLDER = ''uploads''"

definition unique_filename :: "(string \<Rightarrow> string) \<Rightarrow> string \<Rightarrow> file_storage \<Rightarrow> string" where
  "unique_filename secure_filename uuid file = uuid @ ''_'' @ secure_filename (filename file)"

definition filepath :: "(string \<Rightarrow> string) \<Rightarrow> string \<Rightarrow> file_storage \<Rightarrow> string" where
  "filepath secure_filename uuid file =
     UPLOAD_FOLDER @ ''/'' @ unique_filename secure_filename uuid file"

definition NAME_MAX :: nat where
  "NAME_MAX = 255"

definition file_save_raises ::
  "(string \<Rightarrow> string) \<Rightarrow> string \<Rightarrow> file_storage \<Rightarrow> server \<Rightarrow> bool" where
  "file_save_raises secure_filename uuid file s =
     (\<not> disk_up s \<or> NAME_MAX < length (unique_filename secure_filename uuid file))"

definition save_file ::
  "(string \<Rightarrow> string) \<Rightarrow> string \<Rightarrow> file_storage \<Rightarrow> server \<Rightarrow> exn + string \<times> server" where
  "save_file secure_filename uuid file s =
     (if file_save_raises secure_filename uuid file s then Inl OSError
      else Inr (''/uploads/'' @ unique_filename secure_filename uuid file,
                s\<lparr>uploads :=
                    (uploads s)(filepath secure_filename uuid file \<mapsto> content file)\<rparr>))"

text \<open>The truth value of a \<^verbatim>\<open>FileStorage\<close> is that of its filename.\<close>

definition file_truthy :: "file_storage \<Rightarrow> bool" where
  "file_truthy file = (filename file \<noteq> [])"

section \<open>The session guard\<close>

text \<open>
  \<^verbatim>\<open>token_required(f)\<close>: \<open>authorization\<close> is the value of the \<^verbatim>\<open>Authorization\<close> header when
  the request has one, \<open>now\<close> is \<^verbatim>\<open>datetime.now(timezone.utc)\<close>. The header is read before
  the \<^verbatim>\<open>try\<close>, so an exception raised there leaves the decorator (\<open>Inl\<close>); everything
  later is answered with a response (\<open>Inr\<close>). The decorator writes nothing itself.
\<close>

definition token_required ::
  "(string \<Rightarrow> server \<Rightarrow> response \<times> server) \<Rightarrow> string option \<Rightarrow> timestamp \<Rightarrow> server
     \<Rightarrow> (exn + response) \<times> server" where
  "token_required f authorization now s =
     (case (case authorization of
              None \<Rightarrow> Inr None
            | Some h \<Rightarrow> map_sum id Some (index (split_space h) 1)) of
        Inl e \<Rightarrow> (Inl e, s)
      | Inr tok \<Rightarrow>
          if falsy tok then (Inr (Message ''Token is missing!'', 401), s)
          else
            (case get_db_connection s of
               None \<Rightarrow> (Inr (Message ''Database connection error.'', 500), s)
             | Some conn \<Rightarrow>
                 (case select_token conn (the tok) of
                    None \<Rightarrow> (Inr (Message ''Token is invalid or expired!'', 401), s)
                  | Some (uid, created) \<Rightarrow>
                      if replace_microsecond_0 now - replace_microsecond_0 created
                           > timedelta_hours 24
                      then (Inr (Message ''Token is invalid or expired!'', 401), s)
                      else (case f uid s of (r, s') \<Rightarrow> (Inr r, s')))))"

section \<open>Registration, login, logout\<close>

text \<open>
  \<open>data\<close> is the JSON object of the request, \<open>None\<close> when \<^verbatim>\<open>request.get_json()\<close> gives no
  object (then \<^verbatim>\<open>data.get\<close> raises inside the \<^verbatim>\<open>try\<close>); its two fields are strings or
  absent. \<open>generate_password_hash\<close> and \<open>check_password_hash\<close> are werkzeug's, parameters
  here; \<open>new_user_id\<close> and \<open>new_token\<close> are what \<^verbatim>\<open>str(uuid.uuid4())\<close> yields.
\<close>

definition register ::
  "(string \<Rightarrow> string) \<Rightarrow> string \<Rightarrow> credentials option \<Rightarrow> server \<Rightarrow> response \<times> server" where
  "register generate_password_hash new_user_id data s =
     (case get_db_connection s of
        None \<Rightarrow> ((Message ''Database connection error.'', 500), s)
      | Some conn \<Rightarrow>
          (case data of
             None \<Rightarrow> ((Message ''An error occurred during registration.'', 500), s)
           | Some d \<Rightarrow>
               if falsy (cred_username d) \<or> falsy (cred_password d)
               then ((Message ''Username and password are required.'', 400), s)
               else
                 (case select_user conn (the (cred_username d)) of
                    Inl e \<Rightarrow> ((Message ''An error occurred during registration.'', 500), s)
                  | Inr (Some user) \<Rightarrow> ((Message ''User already exists.'', 409), s)
                  | Inr None \<Rightarrow>
                      (case insert_user conn
                              \<lparr>user_id = new_user_id, username = the (cred_username d),
                               password_hash =
                                 generate_password_hash (the (cred_password d))\<rparr> of
                         Inl e \<Rightarrow> ((Message ''An error occurred during registration.'', 500), s)
                       | Inr conn' \<Rightarrow>
                           ((Message_user_id ''User created successfully.'' new_user_id, 201),
                            conn')))))"

definition login ::
  "(string \<Rightarrow> string \<Rightarrow> bool) \<Rightarrow> string \<Rightarrow> timestamp \<Rightarrow> credentials option \<Rightarrow> server
     \<Rightarrow> response \<times> server" where
  "login check_password_hash new_token now data s =
     (case get_db_connection s of
        None \<Rightarrow> ((Message ''Database connection error.'', 500), s)
      | Some conn \<Rightarrow>
          (case data of
             None \<Rightarrow> ((Message ''An error occurred during login.'', 500), s)
           | Some d \<Rightarrow>
               if falsy (cred_username d) \<or> falsy (cred_password d)
               then ((Message ''Username and password are required.'', 400), s)
               else
                 (case select_user conn (the (cred_username d)) of
                    Inl e \<Rightarrow> ((Message ''An error occurred during login.'', 500), s)
                  | Inr None \<Rightarrow> ((Message ''Invalid username or password.'', 401), s)
                  | Inr (Some (uid, hash)) \<Rightarrow>
                      if \<not> check_password_hash hash (the (cred_password d))
                      then ((Message ''Invalid username or password.'', 401), s)
                      else
                        (case insert_token (delete_tokens_of conn uid) new_token uid now of
                           Inl e \<Rightarrow> ((Message ''An error occurred during login.'', 500), s)
                         | Inr conn' \<Rightarrow>
                             ((Message_token ''Login successful.'' new_token uid
                                 (the (cred_username d)), 200),
                              conn')))))"

text \<open>\<^verbatim>\<open>logout\<close> reads the header again, this time inside its \<^verbatim>\<open>try\<close>.\<close>

definition logout :: "string option \<Rightarrow> string \<Rightarrow> server \<Rightarrow> response \<times> server" where
  "logout authorization uid s =
     (case get_db_connection s of
        None \<Rightarrow> ((Message ''Database connection error.'', 500), s)
      | Some conn \<Rightarrow>
          (case authorization of
             None \<Rightarrow> ((Message ''An error occurred during logout.'', 500), s)
           | Some h \<Rightarrow>
               (case index (split_space h) 1 of
                  Inl e \<Rightarrow> ((Message ''An error occurred during logout.'', 500), s)
                | Inr t \<Rightarrow> ((Message ''Logout successful.'', 200), delete_token conn uid t))))"

section \<open>Incidents\<close>

text \<open>
  The three blocks that handle the file part \<^verbatim>\<open>image\<close> of a request (\<open>None\<close> when
  \<^verbatim>\<open>'image' in request.files\<close> is false). A block yields \<open>Inl\<close> of the exception where
  \<^verbatim>\<open>file.save\<close> raises, \<open>Inr (Inl r)\<close> where the route returns the response \<open>r\<close> at once,
  and otherwise \<open>Inr (Inr (img, s'))\<close>, the \<^verbatim>\<open>image_url\<close> with the state after
  \<^verbatim>\<open>file.save\<close>. \<open>uuid\<close> is the \<^verbatim>\<open>uuid4\<close> of the file name.

  In \<^verbatim>\<open>create_incident\<close> of \<^verbatim>\<open>app_postgresql.py\<close>: \<^verbatim>\<open>if file and allowed_file(...)\<close>, then
  \<^verbatim>\<open>elif file\<close> refuses the request; an empty file part is passed over.
\<close>

definition image_create_postgresql ::
  "(string \<Rightarrow> string) \<Rightarrow> string \<Rightarrow> file_storage option \<Rightarrow> server
     \<Rightarrow> exn + response + string option \<times> server" where
  "image_create_postgresql secure_filename uuid image_file s =
     (case image_file of
        None \<Rightarrow> Inr (Inr (None, s))
      | Some file \<Rightarrow>
          if file_truthy file \<and> allowed_file (filename file)
          then (case save_file secure_filename uuid file s of
                  Inl e \<Rightarrow> Inl e
                | Inr (url, s') \<Rightarrow> Inr (Inr (Some url, s')))
          else if file_truthy file then Inr (Inl (Message ''Invalid file type.'', 400))
          else Inr (Inr (None, s)))"

text \<open>
  In \<^verbatim>\<open>create_incident\<close> of \<^verbatim>\<open>app_postresql.py\<close>: the \<^verbatim>\<open>else\<close> refuses every file part that
  is not accepted, the empty one too.
\<close>

definition image_create_postresql ::
  "(string \<Rightarrow> string) \<Rightarrow> string \<Rightarrow> file_storage option \<Rightarrow> server
     \<Rightarrow> exn + response + string option \<times> server" where
  "image_create_postresql secure_filename uuid image_file s =
     (case image_file of
        None \<Rightarrow> Inr (Inr (None, s))
      | Some file \<Rightarrow>
          if file_truthy file \<and> allowed_file (filename file)
          then (case save_file secure_filename uuid file s of
                  Inl e \<Rightarrow> Inl e
                | Inr (url, s') \<Rightarrow> Inr (Inr (Some url, s')))
          else Inr (Inl (Message ''Invalid file type.'', 400)))"

text \<open>In \<^verbatim>\<open>update_incident\<close>: there is no other branch, a file that is not accepted is passed over.\<close>

definition image_update ::
  "(string \<Rightarrow> string) \<Rightarrow> string \<Rightarrow> file_storage option \<Rightarrow> server
     \<Rightarrow> exn + string option \<times> server" where
  "image_update secure_filename uuid image_file s =
     (case image_file of
        None \<Rightarrow> Inr (None, s)
      | Some file \<Rightarrow>
          if file_truthy file \<and> allowed_file (filename file)
          then (case save_file secure_filename uuid file s of
                  Inl e \<Rightarrow> Inl e
                | Inr (url, s') \<Rightarrow> Inr (Some url, s'))
          else Inr (None, s))"

text \<open>\<^verbatim>\<open>not all(...)\<close> over the fields \<^verbatim>\<open>title\<close>, \<^verbatim>\<open>description\<close>, \<^verbatim>\<open>lat\<close>, \<^verbatim>\<open>long\<close> of the form.\<close>

definition required_missing :: "form \<Rightarrow> bool" where
  "required_missing frm =
     (falsy (form_title frm) \<or> falsy (form_description frm)
      \<or> falsy (form_lat frm) \<or> falsy (form_long frm))"

text \<open>
  \<^verbatim>\<open>create_incident\<close> of \<^verbatim>\<open>app_postgresql.py\<close>: the image is handled first, the required
  fields are checked after it. \<open>new_id\<close> is the key the database generates, \<open>now\<close> its
  \<^verbatim>\<open>CURRENT_TIMESTAMP\<close>. A file that was saved stays in the folder whatever happens
  afterwards: \<^verbatim>\<open>rollback\<close> undoes the database only.
\<close>

definition create_incident_postgresql ::
  "(string \<Rightarrow> string) \<Rightarrow> string \<Rightarrow> string \<Rightarrow> timestamp \<Rightarrow> form \<Rightarrow> file_storage option
     \<Rightarrow> string \<Rightarrow> server \<Rightarrow> response \<times> server" where
  "create_incident_postgresql secure_filename uuid new_id now frm image_file uid s =
     (case get_db_connection s of
        None \<Rightarrow> ((Message ''Database connection error.'', 500), s)
      | Some conn \<Rightarrow>
          (case image_create_postgresql secure_filename uuid image_file s of
             Inl e \<Rightarrow>
               ((Message_error ''An error occurred while creating the incident'' e, 500), s)
           | Inr (Inl r) \<Rightarrow> (r, s)
           | Inr (Inr (img, s1)) \<Rightarrow>
               if required_missing frm
               then ((Message_required ''Missing required fields''
                        [''title'', ''description'', ''lat'', ''long''] frm, 400), s1)
               else
                 (case insert_incident_returning s1 new_id now uid
                         (the (form_title frm)) (the (form_description frm))
                         (the (form_lat frm)) (the (form_long frm)) img of
                    Inl e \<Rightarrow>
                      ((Message_error ''An error occurred while creating the incident''
                          (DatabaseError e), 500), s1)
                  | Inr (incident, s2) \<Rightarrow>
                      ((Message_incident ''Incident created successfully'' incident, 201),
                       s2))))"

text \<open>
  \<^verbatim>\<open>create_incident\<close> of \<^verbatim>\<open>app_postresql.py\<close>: the required fields are checked first, then
  the image. \<open>fromisoformat\<close> is \<^verbatim>\<open>datetime.fromisoformat\<close> on the \<^verbatim>\<open>created_at\<close> field with
  \<^verbatim>\<open>Z\<close> replaced (\<open>None\<close> for \<^verbatim>\<open>ValueError\<close>); \<open>iid\<close> is the \<^verbatim>\<open>uuid4\<close> the route draws
  for the key.
\<close>

definition create_incident_postresql ::
  "(string \<Rightarrow> string) \<Rightarrow> (string \<Rightarrow> timestamp option) \<Rightarrow> string \<Rightarrow> string \<Rightarrow> timestamp
     \<Rightarrow> form \<Rightarrow> file_storage option \<Rightarrow> string \<Rightarrow> server \<Rightarrow> response \<times> server" where
  "create_incident_postresql secure_filename fromisoformat uuid iid now frm image_file uid s =
     (case get_db_connection s of
        None \<Rightarrow> ((Message ''Database connection error.'', 500), s)
      | Some conn \<Rightarrow>
          if required_missing frm
          then ((Message ''All required fields (title, description, lat, long) are missing.'',
                 400), s)
          else
            (case image_create_postresql secure_filename uuid image_file s of
               Inl e \<Rightarrow>
                 ((Message ''An error occurred while creating the incident.'', 500), s)
             | Inr (Inl r) \<Rightarrow> (r, s)
             | Inr (Inr (img, s1)) \<Rightarrow>
                 (let created_at_dt =
                        (if falsy (form_created_at frm) then None
                         else fromisoformat (the (form_created_at frm)));
                      created = (case created_at_dt of None \<Rightarrow> now | Some t \<Rightarrow> t)
                  in case insert_incident s1 iid created uid
                            (the (form_title frm)) (the (form_description frm))
                            (the (form_lat frm)) (the (form_long frm)) img of
                       Inl e \<Rightarrow>
                         ((Message ''An error occurred while creating the incident.'', 500),
                          s1)
                     | Inr s2 \<Rightarrow>
                         (case select_incident s2 iid of
                            Inr (Some incident) \<Rightarrow>
                              ((Message_incident ''Incident created successfully.'' incident,
                                201), s2)
                          | _ \<Rightarrow>
                              ((Message ''An error occurred while creating the incident.'',
                                500), s2)))))"

text \<open>
  \<^verbatim>\<open>update_incident\<close>: existence, then ownership, then the image, then the \<^verbatim>\<open>SET\<close> list.
  The file is saved before the list is found empty and before the \<^verbatim>\<open>UPDATE\<close> runs.
\<close>

definition update_incident ::
  "(string \<Rightarrow> string) \<Rightarrow> string \<Rightarrow> form \<Rightarrow> file_storage option \<Rightarrow> string \<Rightarrow> string
     \<Rightarrow> server \<Rightarrow> response \<times> server" where
  "update_incident secure_filename uuid frm image_file iid uid s =
     (case get_db_connection s of
        None \<Rightarrow> ((Message ''Database connection error.'', 500), s)
      | Some conn \<Rightarrow>
          (case select_incident conn iid of
             Inl e \<Rightarrow> ((Message ''An error occurred while updating the incident.'', 500), s)
           | Inr None \<Rightarrow> ((Message ''Incident not found.'', 404), s)
           | Inr (Some incident) \<Rightarrow>
               if incident_user_id incident \<noteq> uid
               then ((Message ''You do not have permission to update this incident.'', 403), s)
               else
                 (case image_update secure_filename uuid image_file s of
                    Inl e \<Rightarrow>
                      ((Message ''An error occurred while updating the incident.'', 500), s)
                  | Inr (img, s1) \<Rightarrow>
                      (let u = \<lparr>set_title = form_title frm,
                                set_description = form_description frm,
                                set_lat = form_lat frm, set_long = form_long frm,
                                set_image_url = img\<rparr>
                       in if no_update_fields u
                          then ((Message ''No fields provided for update.'', 400), s1)
                          else
                            (case update_incident_row s1 u iid of
                               Inl e \<Rightarrow>
                                 ((Message ''An error occurred while updating the incident.'',
                                   500), s1)
                             | Inr s2 \<Rightarrow>
                                 (case select_incident s2 iid of
                                    Inr (Some updated_incident) \<Rightarrow>
                                      ((Message_incident ''Incident updated successfully.''
                                          updated_incident, 200), s2)
                                  | _ \<Rightarrow>
                                      ((Message
                                          ''An error occurred while updating the incident.'',
                                        500), s2)))))))"

text \<open>\<^verbatim>\<open>delete_incident\<close>: existence is checked, the owner is not.\<close>

definition delete_incident :: "string \<Rightarrow> string \<Rightarrow> server \<Rightarrow> response \<times> server" where
  "delete_incident iid uid s =
     (case get_db_connection s of
        None \<Rightarrow> ((Message ''Database connection error.'', 500), s)
      | Some conn \<Rightarrow>
          (case select_incident conn iid of
             Inl e \<Rightarrow> ((Message ''An error occurred while deleting the incident.'', 500), s)
           | Inr None \<Rightarrow> ((Message ''Incident not found.'', 404), s)
           | Inr (Some incident) \<Rightarrow>
               (case delete_incident_row conn iid of
                  Inl e \<Rightarrow> ((Message ''An error occurred while deleting the incident.'', 500), s)
                | Inr conn' \<Rightarrow> ((Message ''Incident deleted successfully.'', 200), conn'))))"

section \<open>The tables at start-up\<close>

text \<open>
  \<^verbatim>\<open>setup_database\<close> of \<^verbatim>\<open>app_postgresql.py\<close> drops \<^verbatim>\<open>incidents\<close> and creates it again, keyed
  by the column \<^verbatim>\<open>id\<close>, in one transaction. \<open>create_ok\<close> says whether the
  \<^verbatim>\<open>CREATE TABLE\<close> is accepted (it calls \<^verbatim>\<open>uuid_generate_v4()\<close> and refers to \<^verbatim>\<open>users\<close>); when
  it is not, the transaction is rolled back and the old table stays.
\<close>

definition setup_database_postgresql :: "bool \<Rightarrow> server \<Rightarrow> server" where
  "setup_database_postgresql create_ok s =
     (case get_db_connection s of
        None \<Rightarrow> s
      | Some conn \<Rightarrow>
          if create_ok then conn\<lparr>incidents := [], incidents_key := Key_id\<rparr> else s)"

section \<open>Example data\<close>

text \<open>
  Two registered users, a token for each, and one incident of the first user, in a database
  whose \<^verbatim>\<open>incidents\<close> table is the one of \<^verbatim>\<open>app_postresql.py\<close>. The password check of
  the examples accepts the hash \<open>hash:p\<close> for the password \<open>p\<close>.
\<close>

definition alice :: user_row where
  "alice = \<lparr>user_id = ''u-alice'', username = ''alice'', password_hash = ''hash:pw1''\<rparr>"

definition bob :: user_row where
  "bob = \<lparr>user_id = ''u-bob'', username = ''bob'', password_hash = ''hash:pw2''\<rparr>"

definition example_check_password_hash :: "string \<Rightarrow> string \<Rightarrow> bool" where
  "example_check_password_hash h p = (h = ''hash:'' @ p)"

definition example_generate_password_hash :: "string \<Rightarrow> string" where
  "example_generate_password_hash p = ''hash:'' @ p"

definition example_secure_filename :: "string \<Rightarrow> string" where
  "example_secure_filename name = name"

definition example_incident :: incident_row where
  "example_incident =
     \<lparr>incident_id = ''i-1'', incident_user_id = ''u-alice'', title = ''Fire'',
      description = ''Smoke on the road'', lat = ''-1.28'', long = ''36.82'',
      image_url = Some ''/uploads/0_old.png'', status = None, created_at = 5,
      updated_at = None\<rparr>"

definition example_server :: server where
  "example_server =
     \<lparr>db_up = True, disk_up = True, users = [alice, bob],
      api_tokens = [\<lparr>token = ''t-alice'', token_user_id = ''u-alice'', token_created_at = 0\<rparr>,
                    \<lparr>token = ''t-bob'', token_user_id = ''u-bob'', token_created_at = 0\<rparr>],
      incidents = [example_incident], incidents_key = Key_incident_id,
      uploads = Map.empty\<rparr>"

definition alice_login :: credentials where
  "alice_login = \<lparr>cred_username = Some ''alice'', cred_password = Some ''pw1''\<rparr>"

text \<open>
  Forms and files of the examples, and the row that \<^verbatim>\<open>create_incident\<close> of
  \<^verbatim>\<open>app_postgresql.py\<close> makes of \<open>example_form\<close> for alice at time 7 under the key
  \<open>i-2\<close>. The \<^verbatim>\<open>secure_filename\<close> of the examples keeps a name as it is, their
  \<^verbatim>\<open>fromisoformat\<close> parses nothing.
\<close>

definition example_fromisoformat :: "string \<Rightarrow> timestamp option" where
  "example_fromisoformat str = None"

definition example_form :: form where
  "example_form =
     \<lparr>form_title = Some ''Flood'', form_description = Some ''Water on the bridge'',
      form_lat = Some ''-1.30'', form_long = Some ''36.80'', form_created_at = None\<rparr>"

definition form_title_only :: form where
  "form_title_only =
     \<lparr>form_title = Some ''Flood'', form_description = None, form_lat = None,
      form_long = None, form_created_at = None\<rparr>"

definition form_without_title :: form where
  "form_without_title =
     \<lparr>form_title = None, form_description = Some ''Smoke on the road'',
      form_lat = Some ''-1.28'', form_long = Some ''36.82'', form_created_at = None\<rparr>"

definition photo :: file_storage where
  "photo = \<lparr>filename = ''fire.PNG'', content = ''bytes''\<rparr>"

definition program_file :: file_storage where
  "program_file = \<lparr>filename = ''notes.exe'', content = ''bytes''\<rparr>"

definition example_report :: incident_row where
  "example_report =
     \<lparr>incident_id = ''i-2'', incident_user_id = ''u-alice'', title = ''Flood'',
      description = ''Water on the bridge'', lat = ''-1.30'', long = ''36.80'',
      image_url = None, status = Some ''open'', created_at = 7, updated_at = Some 7\<rparr>"

text \<open>
  A \<^verbatim>\<open>uuid4\<close> as \<^verbatim>\<open>str\<close> prints it, 36 characters, and a \<^verbatim>\<open>.png\<close> file whose name has 219
  characters.
\<close>

definition example_uuid :: string where
  "example_uuid = ''123e4567-e89b-12d3-a456-426614174000''"

definition long_photo :: file_storage where
  "long_photo = \<lparr>filename = replicate 215 (CHR ''a'') @ ''.png'', content = ''bytes''\<rparr>"

lemmas example_defs = alice_def bob_def example_check_password_hash_def
  example_generate_password_hash_def example_secure_filename_def example_incident_def
  example_server_def alice_login_def example_fromisoformat_def example_form_def
  form_title_only_def form_without_title_def photo_def program_file_def example_report_def

section \<open>Reading the header\<close>

lemma split_space_no_space: "CHR '' '' \<notin> set h \<Longrightarrow> split_space h = [h]"
  by (induction h) auto

lemma token_required_no_header:
  "token_required f None now s = (Inr (Message ''Token is missing!'', 401), s)"
  by (simp add: token_required_def)

lemma token_required_empty_token:
  "index (split_space h) 1 = Inr [] \<Longrightarrow>
   token_required f (Some h) now s = (Inr (Message ''Token is missing!'', 401), s)"
  by (simp add: token_required_def)

lemma token_required_no_space:
  "CHR '' '' \<notin> set h \<Longrightarrow> token_required f (Some h) now s = (Inl IndexError, s)"
  by (simp add: token_required_def index_def split_space_no_space)

text \<open>
  C9. A request without the \<^verbatim>\<open>Authorization\<close> header, and one whose header ends in a space
  (\<^verbatim>\<open>"Bearer "\<close>), are answered 401 \<^verbatim>\<open>Token is missing!\<close> before the handler is reached
  (\<open>token_required_no_header\<close>, \<open>token_required_empty_token\<close>). A header that is present
  and holds no space is not: \<^verbatim>\<open>split(" ")\<close> yields one piece, \<^verbatim>\<open>[1]\<close> raises
  \<^verbatim>\<open>IndexError\<close>, and the line stands before the \<^verbatim>\<open>try\<close>, so the exception leaves the
  decorator. The theorem evaluates the decorator at the empty header and at the header
  \<^verbatim>\<open>Bearer\<close>, for every handler, clock and state.
\<close>

theorem token_required_header_without_token:
  "token_required f (Some []) now s = (Inl IndexError, s)
   \<and> token_required f (Some ''Bearer'') now s = (Inl IndexError, s)"
  by (simp add: token_required_def index_def)

section \<open>The validity window\<close>

lemma replace_microsecond_0_div: "replace_microsecond_0 t = 1000000 * (t div 1000000)"
  unfolding replace_microsecond_0_def by (rule minus_mod_eq_mult_div)

lemma replace_microsecond_0_mono:
  "a \<le> b \<Longrightarrow> replace_microsecond_0 a \<le> replace_microsecond_0 b"
  unfolding replace_microsecond_0_div by (simp add: zdiv_mono1)

lemma replace_microsecond_0_add_day:
  "replace_microsecond_0 (a + timedelta_hours 24) = replace_microsecond_0 a + timedelta_hours 24"
proof -
  have "timedelta_hours 24 = 1000000 * 86400" by (simp add: timedelta_hours_def)
  then show ?thesis
    unfolding replace_microsecond_0_def by (simp only: mod_mult_self2)
qed

lemma replace_microsecond_0_bounds:
  "replace_microsecond_0 a \<le> a" "a < replace_microsecond_0 a + 1000000"
  unfolding replace_microsecond_0_def by simp_all

lemma token_required_found:
  assumes "db_up s" and "index (split_space h) 1 = Inr t" and "t \<noteq> []"
      and "select_token s t = Some (uid, t0)"
  shows "token_required f (Some h) now s =
           (if replace_microsecond_0 now - replace_microsecond_0 t0 > timedelta_hours 24
            then (Inr (Message ''Token is invalid or expired!'', 401), s)
            else (case f uid s of (r, s') \<Rightarrow> (Inr r, s')))"
  using assms by (simp add: token_required_def get_db_connection_def)

text \<open>
  C2, as the code has it. Let the header carry a token \<open>t\<close> that the table holds for the
  user \<open>uid\<close> with issue time \<open>t0\<close>, and let the database be reachable. Then
  \<^item> at every check time in \<open>[t0, t0 + 24h]\<close> the handler runs as \<open>uid\<close>;
  \<^item> at every check time from \<open>t0 + 24h + 1s\<close> on the answer is 401
    \<^verbatim>\<open>Token is invalid or expired!\<close> and the handler does not run;
  \<^item> in general the token is refused exactly when the check time, cut to whole seconds,
    exceeds the issue time, cut to whole seconds, by more than 24 hours.
  Between \<open>t0 + 24h\<close> and \<open>t0 + 24h + 1s\<close> the outcome depends on the two fractions of a
  second that \<^verbatim>\<open>replace(microsecond=0)\<close> drops.
\<close>

theorem token_window:
  assumes "db_up s" and "index (split_space h) 1 = Inr t" and "t \<noteq> []"
      and "select_token s t = Some (uid, t0)"
  shows "(t0 \<le> now \<and> now \<le> t0 + timedelta_hours 24 \<longrightarrow>
            token_required f (Some h) now s = (case f uid s of (r, s') \<Rightarrow> (Inr r, s')))
       \<and> (t0 + timedelta_hours 24 + 1000000 \<le> now \<longrightarrow>
            token_required f (Some h) now s
              = (Inr (Message ''Token is invalid or expired!'', 401), s))
       \<and> (token_required f (Some h) now s =
            (if replace_microsecond_0 now - replace_microsecond_0 t0 > timedelta_hours 24
             then (Inr (Message ''Token is invalid or expired!'', 401), s)
             else (case f uid s of (r, s') \<Rightarrow> (Inr r, s'))))"
proof -
  note eq = token_required_found[OF assms, of f now]
  have inside: "\<not> replace_microsecond_0 now - replace_microsecond_0 t0 > timedelta_hours 24"
    if "now \<le> t0 + timedelta_hours 24"
    using replace_microsecond_0_mono[OF that] replace_microsecond_0_add_day[of t0] by simp
  have outside: "replace_microsecond_0 now - replace_microsecond_0 t0 > timedelta_hours 24"
    if "t0 + timedelta_hours 24 + 1000000 \<le> now"
  proof -
    have "replace_microsecond_0 (t0 + timedelta_hours 24) + 1000000 \<le> now"
      using that replace_microsecond_0_bounds(1)[of "t0 + timedelta_hours 24"] by linarith
    moreover have "now < replace_microsecond_0 now + 1000000"
      by (rule replace_microsecond_0_bounds)
    ultimately show ?thesis using replace_microsecond_0_add_day[of t0] by linarith
  qed
  show ?thesis using eq inside outside by auto
qed

text \<open>
  The theorem at bob's token of the example, issued at 0: one hour later \<^verbatim>\<open>logout\<close> runs,
  at 24 hours and one second the token is refused.
\<close>

theorem token_window_witness:
  "db_up example_server
   \<and> index (split_space ''Bearer t-bob'') 1 = Inr ''t-bob''
   \<and> select_token example_server ''t-bob'' = Some (''u-bob'', 0)
   \<and> (0::int) \<le> 3600000000 \<and> 3600000000 \<le> 0 + timedelta_hours 24
   \<and> token_required (logout (Some ''Bearer t-bob'')) (Some ''Bearer t-bob'') 3600000000
         example_server
       = (case logout (Some ''Bearer t-bob'') ''u-bob'' example_server of
            (r, s') \<Rightarrow> (Inr r, s'))
   \<and> 0 + timedelta_hours 24 + 1000000 \<le> 86401000000
   \<and> token_required (logout (Some ''Bearer t-bob'')) (Some ''Bearer t-bob'') 86401000000
         example_server
       = (Inr (Message ''Token is invalid or expired!'', 401), example_server)"
proof -
  have up: "db_up example_server" by (simp add: example_defs)
  have header: "index (split_space ''Bearer t-bob'') 1 = Inr ''t-bob''"
    by (simp add: index_def)
  have nonempty: "''t-bob'' \<noteq> []" by simp
  have row: "select_token example_server ''t-bob'' = Some (''u-bob'', 0)"
    by (simp add: select_token_def example_defs)
  have early: "(0::int) \<le> 3600000000 \<and> 3600000000 \<le> 0 + timedelta_hours 24"
    by (simp add: timedelta_hours_def)
  have late: "0 + timedelta_hours 24 + 1000000 \<le> 86401000000"
    by (simp add: timedelta_hours_def)
  from token_window [OF up header nonempty row, of 3600000000 "logout (Some ''Bearer t-bob'')"]
       token_window [OF up header nonempty row, of 86401000000 "logout (Some ''Bearer t-bob'')"]
       up header row early late
  show ?thesis by blast
qed

text \<open>
  One microsecond after \<open>t0 + 24h\<close> the token of the example is still accepted: both times
  are cut to the whole second, the difference is 24 hours and not more, and \<^verbatim>\<open>logout\<close>
  runs for bob.
\<close>

theorem token_window_counterexample:
  "0 + timedelta_hours 24 < 86400000001
   \<and> select_token example_server ''t-bob'' = Some (''u-bob'', 0)
   \<and> token_required (logout (Some ''Bearer t-bob'')) (Some ''Bearer t-bob'') 86400000001
         example_server
       = (Inr (Message ''Logout successful.'', 200),
          example_server\<lparr>api_tokens :=
            [\<lparr>token = ''t-alice'', token_user_id = ''u-alice'', token_created_at = 0\<rparr>]\<rparr>)"
  by (simp add: token_required_def index_def get_db_connection_def select_token_def
        replace_microsecond_0_def timedelta_hours_def logout_def delete_token_def
        example_defs)

section \<open>One live token for each user\<close>

lemma login_token_body:
  assumes "login chk tok now data s = ((Message_token m k uid n, c), s')"
  shows "db_up s \<and> k = tok \<and> c = 200
         \<and> insert_token (delete_tokens_of s uid) tok uid now = Inr s'"
  using assms unfolding login_def get_db_connection_def
  by (auto split: option.splits if_splits sum.splits prod.splits)

lemma insert_token_Inr:
  assumes "insert_token conn t uid now = Inr s'"
  shows "s' = conn\<lparr>api_tokens := api_tokens conn @
                  [\<lparr>token = t, token_user_id = uid, token_created_at = now\<rparr>]\<rparr>"
    and "t \<notin> token ` set (api_tokens conn)"
    and "uid \<notin> token_user_id ` set (api_tokens conn)"
  using assms unfolding insert_token_def by (auto split: if_splits)

lemma api_tokens_after_login:
  assumes "login chk tok now data s = ((Message_token m k uid n, c), s')"
  shows "api_tokens s' = filter (\<lambda>r. token_user_id r \<noteq> uid) (api_tokens s) @
           [\<lparr>token = tok, token_user_id = uid, token_created_at = now\<rparr>]"
    and "tok \<notin> token ` {r \<in> set (api_tokens s). token_user_id r \<noteq> uid}"
    and "db_up s' = db_up s"
proof -
  from login_token_body[OF assms]
  have ins: "insert_token (delete_tokens_of s uid) tok uid now = Inr s'" by simp
  from insert_token_Inr[OF ins]
  show "api_tokens s' = filter (\<lambda>r. token_user_id r \<noteq> uid) (api_tokens s) @
           [\<lparr>token = tok, token_user_id = uid, token_created_at = now\<rparr>]"
    and "tok \<notin> token ` {r \<in> set (api_tokens s). token_user_id r \<noteq> uid}"
    and "db_up s' = db_up s"
    by (auto simp: delete_tokens_of_def)
qed

lemma login_keeps_owners_distinct:
  assumes "login chk tok now data s = ((Message_token m k uid n, c), s')"
      and "distinct (map token_user_id (api_tokens s))"
  shows "distinct (map token_user_id (api_tokens s'))"
  using api_tokens_after_login(1)[OF assms(1)] assms(2)
  by (auto simp: distinct_map_filter)

text \<open>
  C1. Let \<^verbatim>\<open>login\<close> succeed for the user \<open>uid\<close> with the token \<open>tok1\<close>, and then again,
  on the state the first login left, with a token \<open>tok2\<close> other than \<open>tok1\<close> (two draws
  of \<^verbatim>\<open>uuid4\<close>). After each login the table holds exactly one row of \<open>uid\<close>, the one just
  inserted; the rows of every other user are those from before the first login; no row
  holds \<open>tok1\<close> any more; and a request that presents \<open>tok1\<close> is answered 401 at every
  time \<open>now\<close>, for every handler \<open>f\<close>, which is not run. A login that succeeds is one that
  answers with the body that carries the token.
\<close>

theorem single_live_token:
  assumes first: "login chk1 tok1 t1 data1 s0 = ((Message_token m1 k1 uid n1, c1), s1)"
      and second: "login chk2 tok2 t2 data2 s1 = ((Message_token m2 k2 uid n2, c2), s2)"
      and fresh: "tok2 \<noteq> tok1"
      and header: "index (split_space h) 1 = Inr tok1"
  shows "filter (\<lambda>r. token_user_id r = uid) (api_tokens s1)
           = [\<lparr>token = tok1, token_user_id = uid, token_created_at = t1\<rparr>]
       \<and> filter (\<lambda>r. token_user_id r = uid) (api_tokens s2)
           = [\<lparr>token = tok2, token_user_id = uid, token_created_at = t2\<rparr>]
       \<and> filter (\<lambda>r. token_user_id r \<noteq> uid) (api_tokens s2)
           = filter (\<lambda>r. token_user_id r \<noteq> uid) (api_tokens s0)
       \<and> select_token s2 tok1 = None
       \<and> token_required f (Some h) now s2
           = (Inr (Message (if tok1 = [] then ''Token is missing!''
                            else ''Token is invalid or expired!''), 401), s2)"
proof -
  note a1 = api_tokens_after_login[OF first]
  note a2 = api_tokens_after_login[OF second]
  have up: "db_up s2" using login_token_body[OF second] a2(3) by simp
  have rows1: "filter (\<lambda>r. token_user_id r = uid) (api_tokens s1)
           = [\<lparr>token = tok1, token_user_id = uid, token_created_at = t1\<rparr>]"
    using a1(1) by (simp add: filter_empty_conv)
  have others1: "filter (\<lambda>r. token_user_id r \<noteq> uid) (api_tokens s1)
                  = filter (\<lambda>r. token_user_id r \<noteq> uid) (api_tokens s0)"
    using a1(1) by simp
  have rows2: "filter (\<lambda>r. token_user_id r = uid) (api_tokens s2)
           = [\<lparr>token = tok2, token_user_id = uid, token_created_at = t2\<rparr>]"
    using a2(1) by (simp add: filter_empty_conv)
  have tokens2: "api_tokens s2 = filter (\<lambda>r. token_user_id r \<noteq> uid) (api_tokens s0) @
           [\<lparr>token = tok2, token_user_id = uid, token_created_at = t2\<rparr>]"
    using a2(1) others1 by simp
  have others2: "filter (\<lambda>r. token_user_id r \<noteq> uid) (api_tokens s2)
                  = filter (\<lambda>r. token_user_id r \<noteq> uid) (api_tokens s0)"
    using tokens2 by simp
  have gone: "select_token s2 tok1 = None"
    unfolding select_token_def using a1(2) fresh
    by (auto simp: tokens2 find_None_iff)
  have guard: "token_required f (Some h) now s2
           = (Inr (Message (if tok1 = [] then ''Token is missing!''
                            else ''Token is invalid or expired!''), 401), s2)"
    using header gone up by (simp add: token_required_def get_db_connection_def)
  from rows1 rows2 others2 gone guard show ?thesis by simp
qed

text \<open>
  The theorem when alice of the example logs in twice: her old token, the token of the
  first login and then the token of the second login are each the only row she has, and
  the first token is refused afterwards.
\<close>

theorem single_live_token_witness:
  "login example_check_password_hash ''t1'' 10 (Some alice_login) example_server
     = ((Message_token ''Login successful.'' ''t1'' ''u-alice'' ''alice'', 200),
        example_server\<lparr>api_tokens :=
          [\<lparr>token = ''t-bob'', token_user_id = ''u-bob'', token_created_at = 0\<rparr>,
           \<lparr>token = ''t1'', token_user_id = ''u-alice'', token_created_at = 10\<rparr>]\<rparr>)
   \<and> login example_check_password_hash ''t2'' 20 (Some alice_login)
       (example_server\<lparr>api_tokens :=
          [\<lparr>token = ''t-bob'', token_user_id = ''u-bob'', token_created_at = 0\<rparr>,
           \<lparr>token = ''t1'', token_user_id = ''u-alice'', token_created_at = 10\<rparr>]\<rparr>)
     = ((Message_token ''Login successful.'' ''t2'' ''u-alice'' ''alice'', 200),
        example_server\<lparr>api_tokens :=
          [\<lparr>token = ''t-bob'', token_user_id = ''u-bob'', token_created_at = 0\<rparr>,
           \<lparr>token = ''t2'', token_user_id = ''u-alice'', token_created_at = 20\<rparr>]\<rparr>)
   \<and> index (split_space ''Bearer t1'') 1 = Inr ''t1''
   \<and> token_required (logout (Some ''Bearer t1'')) (Some ''Bearer t1'') 30
       (example_server\<lparr>api_tokens :=
          [\<lparr>token = ''t-bob'', token_user_id = ''u-bob'', token_created_at = 0\<rparr>,
           \<lparr>token = ''t2'', token_user_id = ''u-alice'', token_created_at = 20\<rparr>]\<rparr>)
     = (Inr (Message ''Token is invalid or expired!'', 401),
        example_server\<lparr>api_tokens :=
          [\<lparr>token = ''t-bob'', token_user_id = ''u-bob'', token_created_at = 0\<rparr>,
           \<lparr>token = ''t2'', token_user_id = ''u-alice'', token_created_at = 20\<rparr>]\<rparr>)"
proof -
  let ?s1 = "example_server\<lparr>api_tokens :=
          [\<lparr>token = ''t-bob'', token_user_id = ''u-bob'', token_created_at = 0\<rparr>,
           \<lparr>token = ''t1'', token_user_id = ''u-alice'', token_created_at = 10\<rparr>]\<rparr>"
  let ?s2 = "example_server\<lparr>api_tokens :=
          [\<lparr>token = ''t-bob'', token_user_id = ''u-bob'', token_created_at = 0\<rparr>,
           \<lparr>token = ''t2'', token_user_id = ''u-alice'', token_created_at = 20\<rparr>]\<rparr>"
  have first: "login example_check_password_hash ''t1'' 10 (Some alice_login) example_server
     = ((Message_token ''Login successful.'' ''t1'' ''u-alice'' ''alice'', 200), ?s1)"
    by (simp add: login_def get_db_connection_def select_user_def insert_token_def
          delete_tokens_of_def varchar255_def example_defs)
  have second: "login example_check_password_hash ''t2'' 20 (Some alice_login) ?s1
     = ((Message_token ''Login successful.'' ''t2'' ''u-alice'' ''alice'', 200), ?s2)"
    by (simp add: login_def get_db_connection_def select_user_def insert_token_def
          delete_tokens_of_def varchar255_def example_defs)
  have fresh: "''t2'' \<noteq> ''t1''" by simp
  have header: "index (split_space ''Bearer t1'') 1 = Inr ''t1''" by (simp add: index_def)
  from single_live_token [OF first second fresh header,
      of "logout (Some ''Bearer t1'')" 30]
  show ?thesis using first second header by simp
qed

section \<open>Registration and login\<close>

lemma select_user_present:
  "u \<in> set (map username (users s)) \<Longrightarrow> \<exists>row. select_user s u = Inr (Some row)"
  by (cases "find (\<lambda>r. username r = u) (users s)")
     (auto simp: select_user_def find_None_iff)


text \<open>
  C7, as the code has it. For every username that is not empty and is already in
  \<^verbatim>\<open>users\<close>, and every password that is not empty, \<^verbatim>\<open>register\<close> answers 409
  \<^verbatim>\<open>User already exists.\<close> and leaves the state as it was, whatever the hash function and
  the fresh user id are. The database is reachable.
\<close>

theorem register_existing_username:
  assumes "db_up s" and "u \<in> set (map username (users s))" and "u \<noteq> []" and "p \<noteq> []"
  shows "register generate_password_hash new_user_id
           (Some \<lparr>cred_username = Some u, cred_password = Some p\<rparr>) s
         = ((Message ''User already exists.'', 409), s)"
proof -
  from select_user_present[OF assms(2)] obtain row where "select_user s u = Inr (Some row)" ..
  with assms(1,3,4) show ?thesis
    by (simp add: register_def get_db_connection_def)
qed

theorem register_existing_username_witness:
  "db_up example_server \<and> ''alice'' \<in> set (map username (users example_server))
   \<and> register example_generate_password_hash ''u-new''
        (Some \<lparr>cred_username = Some ''alice'', cred_password = Some ''other''\<rparr>) example_server
      = ((Message ''User already exists.'', 409), example_server)"
proof -
  have up: "db_up example_server" by (simp add: example_defs)
  have present: "''alice'' \<in> set (map username (users example_server))"
    by (simp add: example_defs)
  have u: "''alice'' \<noteq> []" and p: "''other'' \<noteq> []" by simp_all
  from register_existing_username [OF up present u p, of example_generate_password_hash "''u-new''"]
  show ?thesis using up present by simp
qed

text \<open>
  With the empty password the check \<^verbatim>\<open>if not username or not password\<close> comes first:
  for alice, who exists, the answer is 400 and not 409.
\<close>

theorem register_existing_username_counterexample:
  "''alice'' \<in> set (map username (users example_server))
   \<and> register example_generate_password_hash ''u-new''
        (Some \<lparr>cred_username = Some ''alice'', cred_password = Some []\<rparr>) example_server
      = ((Message ''Username and password are required.'', 400), example_server)"
  by (simp add: register_def get_db_connection_def example_defs)

text \<open>
  The check that comes first, for every request: without a username or without a password,
  \<^verbatim>\<open>register\<close> answers 400 and leaves the state as it was, whether the user exists or not.
\<close>

lemma register_requires_both:
  assumes "db_up s" and "falsy (cred_username d) \<or> falsy (cred_password d)"
  shows "register generate_password_hash new_user_id (Some d) s
         = ((Message ''Username and password are required.'', 400), s)"
  using assms by (auto simp: register_def get_db_connection_def)




section \<open>Creating an incident\<close>

lemma allowed_file_truthy: "allowed_file (filename file) \<Longrightarrow> file_truthy file"
  by (auto simp: allowed_file_def file_truthy_def)

lemma allowed_photo: "allowed_file (filename photo)"
  by (simp add: photo_def allowed_file_def index_def rsplit_dot_def lower_def lower_char_def
        ALLOWED_EXTENSIONS_def)

lemma rsplit_dot_append_extension:
  "CHR ''.'' \<notin> set ext \<Longrightarrow> rsplit_dot (name @ CHR ''.'' # ext) = [name, ext]"
proof -
  assume ext: "CHR ''.'' \<notin> set ext"
  have "takeWhile (\<lambda>c. c \<noteq> CHR ''.'') (rev ext @ CHR ''.'' # rev name)
          = rev ext @ takeWhile (\<lambda>c. c \<noteq> CHR ''.'') (CHR ''.'' # rev name)"
    by (rule takeWhile_append2) (use ext in auto)
  moreover have "dropWhile (\<lambda>c. c \<noteq> CHR ''.'') (rev ext @ CHR ''.'' # rev name)
                   = dropWhile (\<lambda>c. c \<noteq> CHR ''.'') (CHR ''.'' # rev name)"
    by (rule dropWhile_append2) (use ext in auto)
  ultimately show ?thesis by (simp add: rsplit_dot_def)
qed

lemma allowed_long_photo: "allowed_file (filename long_photo)"
proof -
  have "rsplit_dot (replicate 215 (CHR ''a'') @ CHR ''.'' # ''png'') = [replicate 215 (CHR ''a''), ''png'']"
    by (rule rsplit_dot_append_extension) simp
  then show ?thesis
    by (simp add: long_photo_def allowed_file_def index_def lower_def lower_char_def
        ALLOWED_EXTENSIONS_def)
qed

lemma long_photo_raises:
  "file_save_raises example_secure_filename example_uuid long_photo s"
  by (simp add: file_save_raises_def unique_filename_def NAME_MAX_def long_photo_def
        example_uuid_def example_secure_filename_def)

lemma photo_saves:
  "\<not> file_save_raises example_secure_filename ''u1'' photo example_server"
  by (simp add: file_save_raises_def unique_filename_def NAME_MAX_def example_defs)

lemma omitted_required_missing:
  "form_title frm = None \<or> form_description frm = None \<or> form_lat frm = None
     \<or> form_long frm = None \<Longrightarrow> required_missing frm"
  by (auto simp: required_missing_def)






text \<open>
  C10, as the code has it. In \<^verbatim>\<open>app_postgresql.py\<close>, a create request with an image whose
  name \<^verbatim>\<open>allowed_file\<close> accepts and with a required field omitted, on a reachable database:
  \<^item> where \<^verbatim>\<open>file.save\<close> does not raise, the answer is 400 \<^verbatim>\<open>Missing required fields\<close>, the
    three tables are what they were, and the upload folder now holds the file under
    \<^verbatim>\<open>uploads/<uuid>_<secure name>\<close>;
  \<^item> where \<^verbatim>\<open>file.save\<close> raises, the answer is 500 and the state is what it was: no
    incident and no file.
\<close>

theorem create_incident_saves_before_validation:
  assumes "db_up s"
      and "form_title frm = None \<or> form_description frm = None \<or> form_lat frm = None
             \<or> form_long frm = None"
      and "allowed_file (filename file)"
  shows "(\<not> file_save_raises secure_filename uuid file s \<longrightarrow>
            create_incident_postgresql secure_filename uuid new_id now frm (Some file) uid s
            = ((Message_required ''Missing required fields''
                  [''title'', ''description'', ''lat'', ''long''] frm, 400),
               s\<lparr>uploads := (uploads s)
                    (''uploads/'' @ uuid @ ''_'' @ secure_filename (filename file)
                       \<mapsto> content file)\<rparr>))
       \<and> (file_save_raises secure_filename uuid file s \<longrightarrow>
            create_incident_postgresql secure_filename uuid new_id now frm (Some file) uid s
            = ((Message_error ''An error occurred while creating the incident'' OSError, 500),
               s))"
  using assms(1) omitted_required_missing[OF assms(2)] assms(3) allowed_file_truthy[OF assms(3)]
  by (simp add: create_incident_postgresql_def get_db_connection_def
        image_create_postgresql_def save_file_def filepath_def unique_filename_def
        UPLOAD_FOLDER_def)

text \<open>
  The theorem at the form without a title: with the photo \<^verbatim>\<open>fire.PNG\<close>, which is saved, and
  with the photo of the long name, on which \<^verbatim>\<open>file.save\<close> raises.
\<close>

theorem create_incident_saves_before_validation_witness:
  "db_up example_server \<and> form_title form_without_title = None
   \<and> allowed_file (filename photo)
   \<and> \<not> file_save_raises example_secure_filename ''u1'' photo example_server
   \<and> create_incident_postgresql example_secure_filename ''u1'' ''i-2'' 7 form_without_title
        (Some photo) ''u-alice'' example_server
      = ((Message_required ''Missing required fields''
            [''title'', ''description'', ''lat'', ''long''] form_without_title, 400),
         example_server\<lparr>uploads := [''uploads/u1_fire.PNG'' \<mapsto> ''bytes'']\<rparr>)
   \<and> allowed_file (filename long_photo)
   \<and> file_save_raises example_secure_filename example_uuid long_photo example_server
   \<and> create_incident_postgresql example_secure_filename example_uuid ''i-2'' 7
        form_without_title (Some long_photo) ''u-alice'' example_server
      = ((Message_error ''An error occurred while creating the incident'' OSError, 500),
         example_server)"
proof -
  have up: "db_up example_server" by (simp add: example_defs)
  have omitted: "form_title form_without_title = None" by (simp add: form_without_title_def)
  then have missing: "form_title form_without_title = None
      \<or> form_description form_without_title = None \<or> form_lat form_without_title = None
      \<or> form_long form_without_title = None" by simp
  note saved = create_incident_saves_before_validation [OF up missing allowed_photo,
      of example_secure_filename "''u1''" "''i-2''" 7 "''u-alice''"]
  note raised = create_incident_saves_before_validation [OF up missing allowed_long_photo,
      of example_secure_filename example_uuid "''i-2''" 7 "''u-alice''"]
  have stored: "create_incident_postgresql example_secure_filename ''u1'' ''i-2'' 7
        form_without_title (Some photo) ''u-alice'' example_server
      = ((Message_required ''Missing required fields''
            [''title'', ''description'', ''lat'', ''long''] form_without_title, 400),
         example_server\<lparr>uploads := [''uploads/u1_fire.PNG'' \<mapsto> ''bytes'']\<rparr>)"
    using saved photo_saves by (simp add: example_defs)
  have failed: "create_incident_postgresql example_secure_filename example_uuid ''i-2'' 7
        form_without_title (Some long_photo) ''u-alice'' example_server
      = ((Message_error ''An error occurred while creating the incident'' OSError, 500),
         example_server)"
    using raised long_photo_raises[of example_server] by simp
  show ?thesis
    using up omitted allowed_photo photo_saves allowed_long_photo
      long_photo_raises[of example_server] stored failed by simp
qed

text \<open>
  With the \<^verbatim>\<open>.png\<close> file of the long name the request is answered 500 and the upload
  folder is what it was: the file does not persist.
\<close>

theorem create_incident_saves_before_validation_counterexample:
  "allowed_file (filename long_photo) \<and> form_title form_without_title = None
   \<and> snd (fst (create_incident_postgresql example_secure_filename example_uuid ''i-2'' 7
                 form_without_title (Some long_photo) ''u-alice'' example_server)) = 500
   \<and> uploads (snd (create_incident_postgresql example_secure_filename example_uuid ''i-2'' 7
                      form_without_title (Some long_photo) ''u-alice'' example_server))
      = uploads example_server"
  using allowed_long_photo allowed_file_truthy[OF allowed_long_photo]
        long_photo_raises[of example_server]
  by (simp add: create_incident_postgresql_def get_db_connection_def
        image_create_postgresql_def save_file_def example_server_def form_without_title_def)

section \<open>The key column of the incidents table\<close>

text \<open>
  \<^verbatim>\<open>update_incident\<close> and \<^verbatim>\<open>delete_incident\<close> name the column \<^verbatim>\<open>incident_id\<close> in both
  variants. On the table of \<^verbatim>\<open>app_postresql.py\<close> they do what their docstrings say; on the
  table that \<^verbatim>\<open>setup_database\<close> of \<^verbatim>\<open>app_postgresql.py\<close> creates, every call ends in the
  \<^verbatim>\<open>except\<close> branch.
\<close>

lemma select_incident_key_id:
  "incidents_key s = Key_id \<Longrightarrow> select_incident s iid = Inl UndefinedColumn"
  by (simp add: select_incident_def)

lemma delete_incident_key_id:
  "db_up s \<Longrightarrow> incidents_key s = Key_id \<Longrightarrow>
   delete_incident iid uid s
     = ((Message ''An error occurred while deleting the incident.'', 500), s)"
  by (simp add: delete_incident_def get_db_connection_def select_incident_key_id)

lemma update_incident_key_id:
  "db_up s \<Longrightarrow> incidents_key s = Key_id \<Longrightarrow>
   update_incident secure_filename uuid frm image_file iid uid s
     = ((Message ''An error occurred while updating the incident.'', 500), s)"
  by (simp add: update_incident_def get_db_connection_def select_incident_key_id)

lemma select_incident_present:
  assumes "incidents_key s = Key_incident_id"
      and "iid \<in> set (map incident_id (incidents s))"
  shows "\<exists>incident. select_incident s iid = Inr (Some incident)"
  using assms
  by (cases "find (\<lambda>r. incident_id r = iid) (incidents s)")
     (auto simp: select_incident_def find_None_iff)

lemma delete_incident_present:
  assumes "db_up s" and "incidents_key s = Key_incident_id"
      and "iid \<in> set (map incident_id (incidents s))"
  shows "delete_incident iid uid s
         = ((Message ''Incident deleted successfully.'', 200),
            s\<lparr>incidents := filter (\<lambda>r. incident_id r \<noteq> iid) (incidents s)\<rparr>)"
proof -
  from select_incident_present[OF assms(2,3)]
  obtain incident where "select_incident s iid = Inr (Some incident)" ..
  then show ?thesis using assms(1,2)
    by (simp add: delete_incident_def get_db_connection_def delete_incident_row_def)
qed

lemma delete_incident_absent:
  assumes "db_up s" and "incidents_key s = Key_incident_id"
      and "iid \<notin> set (map incident_id (incidents s))" and "\<not> holds_nul iid"
  shows "delete_incident iid uid s = ((Message ''Incident not found.'', 404), s)"
proof -
  from assms(3) have "find (\<lambda>r. incident_id r = iid) (incidents s) = None"
    by (auto simp: find_None_iff)
  then show ?thesis using assms(1,2,4)
    by (simp add: delete_incident_def get_db_connection_def select_incident_def)
qed

lemma update_incident_not_owner:
  assumes "db_up s" and "incidents_key s = Key_incident_id"
      and "find (\<lambda>r. incident_id r = iid) (incidents s) = Some incident"
      and "incident_user_id incident \<noteq> uid"
  shows "update_incident secure_filename uuid frm image_file iid uid s
         = ((Message ''You do not have permission to update this incident.'', 403), s)"
  using assms by (simp add: update_incident_def get_db_connection_def select_incident_def)

lemma update_incident_absent:
  assumes "db_up s" and "incidents_key s = Key_incident_id"
      and "find (\<lambda>r. incident_id r = iid) (incidents s) = None" and "\<not> holds_nul iid"
  shows "update_incident secure_filename uuid frm image_file iid uid s
         = ((Message ''Incident not found.'', 404), s)"
  using assms by (simp add: update_incident_def get_db_connection_def select_incident_def)

lemma setup_database_postgresql_example:
  "setup_database_postgresql True example_server
     = example_server\<lparr>incidents := [], incidents_key := Key_id\<rparr>"
  by (simp add: setup_database_postgresql_def get_db_connection_def example_defs)

lemma create_incident_postgresql_example:
  "create_incident_postgresql example_secure_filename ''u1'' ''i-2'' 7 example_form None
     ''u-alice'' (example_server\<lparr>incidents := [], incidents_key := Key_id\<rparr>)
   = ((Message_incident ''Incident created successfully'' example_report, 201),
      example_server\<lparr>incidents := [example_report], incidents_key := Key_id\<rparr>)"
  by (simp add: create_incident_postgresql_def get_db_connection_def
        image_create_postgresql_def required_missing_def insert_incident_returning_def
        holds_nul_def varchar255_def varchar255_accepts_def varchar255_stored_def Let_def
        example_defs)

section \<open>Deleting an incident\<close>

text \<open>
  C3. On the table of \<^verbatim>\<open>app_postresql.py\<close>, \<^verbatim>\<open>delete_incident\<close> removes an existing incident
  for every acting user and answers 404 exactly for an absent id
  (\<open>delete_incident_present\<close>, \<open>delete_incident_absent\<close>). In \<^verbatim>\<open>app_postgresql.py\<close> it does
  not: the theorem runs that variant from its start. \<^verbatim>\<open>setup_database\<close> creates the table
  keyed by \<^verbatim>\<open>id\<close>, alice creates the incident \<open>i-2\<close> (201), and then \<^verbatim>\<open>DELETE\<close> of \<open>i-2\<close>
  with alice's valid token, and with bob's, is answered 500 and the incident stays.
\<close>

theorem delete_incident_postgresql_fails:
  "setup_database_postgresql True example_server
      = example_server\<lparr>incidents := [], incidents_key := Key_id\<rparr>
   \<and> create_incident_postgresql example_secure_filename ''u1'' ''i-2'' 7 example_form None
        ''u-alice'' (example_server\<lparr>incidents := [], incidents_key := Key_id\<rparr>)
      = ((Message_incident ''Incident created successfully'' example_report, 201),
         example_server\<lparr>incidents := [example_report], incidents_key := Key_id\<rparr>)
   \<and> token_required (delete_incident ''i-2'') (Some ''Bearer t-alice'') 8
        (example_server\<lparr>incidents := [example_report], incidents_key := Key_id\<rparr>)
      = (Inr (Message ''An error occurred while deleting the incident.'', 500),
         example_server\<lparr>incidents := [example_report], incidents_key := Key_id\<rparr>)
   \<and> token_required (delete_incident ''i-2'') (Some ''Bearer t-bob'') 8
        (example_server\<lparr>incidents := [example_report], incidents_key := Key_id\<rparr>)
      = (Inr (Message ''An error occurred while deleting the incident.'', 500),
         example_server\<lparr>incidents := [example_report], incidents_key := Key_id\<rparr>)"
  by (simp add: setup_database_postgresql_example create_incident_postgresql_example)
    (simp add: token_required_def index_def get_db_connection_def select_token_def
        replace_microsecond_0_def timedelta_hours_def delete_incident_def select_incident_def
        example_defs)

section \<open>Updating an incident\<close>

text \<open>
  C4. On the table of \<^verbatim>\<open>app_postresql.py\<close>, \<^verbatim>\<open>update_incident\<close> answers 404 for an absent
  id and 403 for an acting user who is not the owner, in this order, and writes nothing
  (\<open>update_incident_absent\<close>, \<open>update_incident_not_owner\<close>). In \<^verbatim>\<open>app_postgresql.py\<close> it
  does not: after \<^verbatim>\<open>setup_database\<close> and alice's \<^verbatim>\<open>create_incident\<close> as above, bob's
  \<^verbatim>\<open>PUT\<close> on alice's incident \<open>i-2\<close> is answered 500, and so is his \<^verbatim>\<open>PUT\<close> on the absent
  id \<open>i-9\<close>; the incident is unchanged.
\<close>

theorem update_incident_postgresql_fails:
  "setup_database_postgresql True example_server
      = example_server\<lparr>incidents := [], incidents_key := Key_id\<rparr>
   \<and> create_incident_postgresql example_secure_filename ''u1'' ''i-2'' 7 example_form None
        ''u-alice'' (example_server\<lparr>incidents := [], incidents_key := Key_id\<rparr>)
      = ((Message_incident ''Incident created successfully'' example_report, 201),
         example_server\<lparr>incidents := [example_report], incidents_key := Key_id\<rparr>)
   \<and> token_required (update_incident example_secure_filename ''u2'' form_title_only None ''i-2'')
        (Some ''Bearer t-bob'') 8
        (example_server\<lparr>incidents := [example_report], incidents_key := Key_id\<rparr>)
      = (Inr (Message ''An error occurred while updating the incident.'', 500),
         example_server\<lparr>incidents := [example_report], incidents_key := Key_id\<rparr>)
   \<and> token_required (update_incident example_secure_filename ''u2'' form_title_only None ''i-9'')
        (Some ''Bearer t-bob'') 8
        (example_server\<lparr>incidents := [example_report], incidents_key := Key_id\<rparr>)
      = (Inr (Message ''An error occurred while updating the incident.'', 500),
         example_server\<lparr>incidents := [example_report], incidents_key := Key_id\<rparr>)"
  by (simp add: setup_database_postgresql_example create_incident_postgresql_example)
    (simp add: token_required_def index_def get_db_connection_def select_token_def
        replace_microsecond_0_def timedelta_hours_def update_incident_def select_incident_def
        example_defs)

lemma find_map_same_key:
  assumes "\<And>r. incident_id (g r) = incident_id r"
  shows "find (\<lambda>r. incident_id r = iid) (map (\<lambda>r. if incident_id r = iid then g r else r) xs)
         = map_option g (find (\<lambda>r. incident_id r = iid) xs)"
  using assms by (induction xs) auto

lemma filter_map_other_keys:
  assumes "\<And>r. incident_id (g r) = incident_id r"
  shows "filter (\<lambda>r. incident_id r \<noteq> iid) (map (\<lambda>r. if incident_id r = iid then g r else r) xs)
         = filter (\<lambda>r. incident_id r \<noteq> iid) xs"
  using assms by (induction xs) auto

lemma apply_update_key: "incident_id (apply_update u r) = incident_id r"
  by (simp add: apply_update_def)

lemma image_update_cases:
  "image_update secure_filename uuid image_file s =
     (case image_file of
        None \<Rightarrow> Inr (None, s)
      | Some file \<Rightarrow>
          if allowed_file (filename file)
          then (if file_save_raises secure_filename uuid file s then Inl OSError
                else Inr (Some (''/uploads/'' @ uuid @ ''_'' @ secure_filename (filename file)),
                          s\<lparr>uploads := (uploads s)
                               (''uploads/'' @ uuid @ ''_'' @ secure_filename (filename file)
                                  \<mapsto> content file)\<rparr>))
          else Inr (None, s))"
  using allowed_file_truthy
  by (auto simp: image_update_def save_file_def filepath_def unique_filename_def
        UPLOAD_FOLDER_def split: option.splits)

lemma update_incident_200:
  assumes "update_incident secure_filename uuid frm image_file iid uid s = ((b, 200), s')"
  shows "\<exists>img s1. image_update secure_filename uuid image_file s = Inr (img, s1)
           \<and> incidents s' =
               map (\<lambda>r. if incident_id r = iid
                         then apply_update
                                \<lparr>set_title = form_title frm,
                                 set_description = form_description frm,
                                 set_lat = form_lat frm, set_long = form_long frm,
                                 set_image_url = img\<rparr> r
                         else r) (incidents s)
           \<and> users s' = users s \<and> api_tokens s' = api_tokens s"
  using assms
  by (auto simp: update_incident_def get_db_connection_def select_incident_def
        update_incident_row_def image_update_cases Let_def
        split: option.splits sum.splits prod.splits if_splits)

text \<open>
  What an update that is answered 200 has written: the row of the incident is the old row
  with \<^verbatim>\<open>title\<close>, \<^verbatim>\<open>description\<close>, \<^verbatim>\<open>lat\<close> and \<^verbatim>\<open>long\<close> set to what the database stores of
  the value of the form, where the form has one, and with \<^verbatim>\<open>image_url\<close> set to the URL of
  the saved file, where the request has an image whose name \<^verbatim>\<open>allowed_file\<close> accepts.
  Everything else in the row, each field the request does not name, every other incident,
  the users and the tokens are as before.
\<close>

lemma update_incident_frame:
  assumes ok: "update_incident secure_filename uuid frm image_file iid uid s = ((b, 200), s')"
      and old: "find (\<lambda>r. incident_id r = iid) (incidents s) = Some old"
  shows "find (\<lambda>r. incident_id r = iid) (incidents s')
           = Some (old\<lparr>title :=
                         (case form_title frm of None \<Rightarrow> title old
                          | Some v \<Rightarrow> varchar255_stored v),
                       description :=
                         (case form_description frm of None \<Rightarrow> description old | Some v \<Rightarrow> v),
                       lat :=
                         (case form_lat frm of None \<Rightarrow> lat old
                          | Some v \<Rightarrow> varchar255_stored v),
                       long :=
                         (case form_long frm of None \<Rightarrow> long old
                          | Some v \<Rightarrow> varchar255_stored v),
                       image_url :=
                         (case image_file of
                            None \<Rightarrow> image_url old
                          | Some file \<Rightarrow>
                              if allowed_file (filename file)
                              then Some (varchar255_stored
                                           (''/uploads/'' @ uuid @ ''_''
                                              @ secure_filename (filename file)))
                              else image_url old)\<rparr>)
       \<and> filter (\<lambda>r. incident_id r \<noteq> iid) (incidents s')
           = filter (\<lambda>r. incident_id r \<noteq> iid) (incidents s)
       \<and> users s' = users s \<and> api_tokens s' = api_tokens s"
proof -
  from update_incident_200[OF ok] obtain img s1
    where img: "image_update secure_filename uuid image_file s = Inr (img, s1)"
      and rows: "incidents s' =
               map (\<lambda>r. if incident_id r = iid
                         then apply_update
                                \<lparr>set_title = form_title frm,
                                 set_description = form_description frm,
                                 set_lat = form_lat frm, set_long = form_long frm,
                                 set_image_url = img\<rparr> r
                         else r) (incidents s)"
      and same: "users s' = users s" "api_tokens s' = api_tokens s"
    by blast
  let ?u = "\<lparr>set_title = form_title frm, set_description = form_description frm,
             set_lat = form_lat frm, set_long = form_long frm, set_image_url = img\<rparr>"
  have found: "find (\<lambda>r. incident_id r = iid) (incidents s') = Some (apply_update ?u old)"
    unfolding rows using find_map_same_key[of "apply_update ?u" iid "incidents s"] old
    by (simp add: apply_update_key)
  have others: "filter (\<lambda>r. incident_id r \<noteq> iid) (incidents s')
           = filter (\<lambda>r. incident_id r \<noteq> iid) (incidents s)"
    unfolding rows by (rule filter_map_other_keys) (rule apply_update_key)
  have url: "img = (case image_file of
                      None \<Rightarrow> None
                    | Some file \<Rightarrow>
                        if allowed_file (filename file)
                        then Some (''/uploads/'' @ uuid @ ''_''
                                     @ secure_filename (filename file))
                        else None)"
    using img by (auto simp: image_update_cases split: option.splits if_splits)
  have row: "apply_update ?u old
           = old\<lparr>title :=
                         (case form_title frm of None \<Rightarrow> title old
                          | Some v \<Rightarrow> varchar255_stored v),
                       description :=
                         (case form_description frm of None \<Rightarrow> description old | Some v \<Rightarrow> v),
                       lat :=
                         (case form_lat frm of None \<Rightarrow> lat old
                          | Some v \<Rightarrow> varchar255_stored v),
                       long :=
                         (case form_long frm of None \<Rightarrow> long old
                          | Some v \<Rightarrow> varchar255_stored v),
                       image_url :=
                         (case image_file of
                            None \<Rightarrow> image_url old
                          | Some file \<Rightarrow>
                              if allowed_file (filename file)
                              then Some (varchar255_stored
                                           (''/uploads/'' @ uuid @ ''_''
                                              @ secure_filename (filename file)))
                              else image_url old)\<rparr>"
    by (simp add: apply_update_def url split: option.splits)
  show ?thesis
    using found others same by (simp only: row)
qed

text \<open>
  C6. \<^verbatim>\<open>update_incident\<close> on the table of \<^verbatim>\<open>app_postresql.py\<close>, where an update can succeed.
  Alice, the owner, sends a new title together with the image \<^verbatim>\<open>notes.exe\<close>. The route has
  no branch for a file that \<^verbatim>\<open>allowed_file\<close> rejects (\<^verbatim>\<open>create_incident\<close> answers 400
  \<^verbatim>\<open>Invalid file type.\<close> there): the update is answered 200, the title is set, and the
  \<^verbatim>\<open>image_url\<close> is the one from before although an image was supplied.
\<close>

theorem update_incident_passes_over_image:
  "update_incident example_secure_filename ''u1'' form_title_only (Some program_file) ''i-1''
       ''u-alice'' example_server
     = ((Message_incident ''Incident updated successfully.''
           (example_incident\<lparr>title := ''Flood''\<rparr>), 200),
        example_server\<lparr>incidents := [example_incident\<lparr>title := ''Flood''\<rparr>]\<rparr>)
   \<and> image_url (example_incident\<lparr>title := ''Flood''\<rparr>) = image_url example_incident
   \<and> create_incident_postresql example_secure_filename example_fromisoformat ''u1'' ''i-3'' 7
        example_form (Some program_file) ''u-alice'' example_server
      = ((Message ''Invalid file type.'', 400), example_server)"
  by (simp add: update_incident_def create_incident_postresql_def get_db_connection_def
        select_incident_def image_update_def image_create_postresql_def required_missing_def
        file_truthy_def allowed_file_def index_def
        rsplit_dot_def lower_def lower_char_def ALLOWED_EXTENSIONS_def no_update_fields_def
        update_incident_row_def apply_update_def holds_nul_def varchar255_accepts_def
        varchar255_stored_def example_defs)

end
